theory Spec2Isabelle
  imports Main
begin

section \<open>JavaScript strings\<close>

text \<open>
  A JavaScript string is a sequence of UTF-16 code units. The model uses \<^typ>\<open>string\<close>:
  a \<^typ>\<open>char\<close> stands for the code unit with the same number, so the alphabet of the
  model is the code units \<open>0..255\<close> (ASCII and the Latin-1 supplement). On that alphabet
  the functions below are what \<^verbatim>\<open>String.prototype.trim\<close>,
  \<^verbatim>\<open>String.prototype.toLowerCase\<close> and the regular expressions of
  \<^verbatim>\<open>src/App.jsx\<close> compute.
\<close>

definition isWhiteSpace :: "char \<Rightarrow> bool" where
  \<comment> \<open>The class \<^verbatim>\<open>\s\<close>, which is also what \<^verbatim>\<open>trim\<close> strips: TAB, LF, VT, FF, CR, SPACE, NBSP.\<close>
  "isWhiteSpace c =
     (let n = (of_char c :: nat) in (9 \<le> n \<and> n \<le> 13) \<or> n = 32 \<or> n = 160)"

definition toLowerChar :: "char \<Rightarrow> char" where
  \<comment> \<open>\<^verbatim>\<open>A-Z\<close>, and the capital letters \<^verbatim>\<open>U+00C0..U+00DE\<close> other than the multiplication sign.\<close>
  "toLowerChar c =
     (let n = (of_char c :: nat)
      in if (65 \<le> n \<and> n \<le> 90) \<or> (192 \<le> n \<and> n \<le> 222 \<and> n \<noteq> 215)
         then char_of (n + 32) else c)"

definition toLowerCase :: "string \<Rightarrow> string" where
  "toLowerCase s = map toLowerChar s"

definition trim :: "string \<Rightarrow> string" where
  "trim s = rev (dropWhile isWhiteSpace (rev (dropWhile isWhiteSpace s)))"

text \<open>
  \<^verbatim>\<open>s.replace(/\s+/g, "")\<close>: scanning from the left, every maximal run of white
  space is matched once and replaced by the empty string.
\<close>

function replaceWsRuns :: "string \<Rightarrow> string" where
  "replaceWsRuns [] = []"
| "replaceWsRuns (c # cs) =
     (if isWhiteSpace c then [] @ replaceWsRuns (dropWhile isWhiteSpace cs)
      else c # replaceWsRuns cs)"
  by pat_completeness auto
termination
  by (relation "measure length") (auto simp: length_dropWhile_le less_Suc_eq_le)

definition isLocalPartChar :: "char \<Rightarrow> bool" where
  \<comment> \<open>The class \<^verbatim>\<open>[a-z0-9._-]\<close>.\<close>
  "isLocalPartChar c =
     (let n = (of_char c :: nat)
      in (97 \<le> n \<and> n \<le> 122) \<or> (48 \<le> n \<and> n \<le> 57) \<or> n = 46 \<or> n = 95 \<or> n = 45)"

text \<open>
  \<^verbatim>\<open>s.replace(/[^a-z0-9._-]/g, "")\<close>: every single character outside the class is
  matched and replaced by the empty string.
\<close>

fun replaceNonLocalPart :: "string \<Rightarrow> string" where
  "replaceNonLocalPart [] = []"
| "replaceNonLocalPart (c # cs) =
     (if \<not> isLocalPartChar c then [] @ replaceNonLocalPart cs
      else c # replaceNonLocalPart cs)"

definition orElse :: "string \<Rightarrow> string \<Rightarrow> string" where
  \<comment> \<open>\<^verbatim>\<open>a || b\<close> on strings: the empty string is falsy.\<close>
  "orElse a b = (if a = [] then b else a)"

section \<open>Auth flow\<close>

definition normalizeUsername :: "string \<Rightarrow> string" where
  \<comment> \<open>\<^verbatim>\<open>String(u || "").trim().toLowerCase().replace(/\s+/g, "")\<close>\<close>
  "normalizeUsername u = replaceWsRuns (toLowerCase (trim (orElse u [])))"

definition usernameToAuthEmail :: "string \<Rightarrow> string" where
  "usernameToAuthEmail usernameRaw =
     (let username = normalizeUsername usernameRaw;
          localPart = replaceNonLocalPart username
      in if localPart \<noteq> [] then localPart @ ''@vibe-user.example.com'' else [])"

text \<open>The specification's wording of the local part, step by step.\<close>

definition spec_localPart :: "string \<Rightarrow> string" where
  "spec_localPart raw =
     filter isLocalPartChar
       (filter (\<lambda>c. \<not> isWhiteSpace c) (map toLowerChar (trim raw)))"

subsection \<open>Role derivation\<close>

text \<open>
  The part of the auth service's user object that the client reads. A field that is
  \<^verbatim>\<open>undefined\<close> or \<^verbatim>\<open>null\<close> is \<^const>\<open>None\<close>; the fields that are set hold strings.
\<close>

record user_metadata =
  meta_username :: "string option"
  meta_role :: "string option"
  meta_real_email :: "string option"

record auth_user =
  user_id :: "string option"
  user_email :: "string option"
  user_metadata :: "user_metadata option"

definition orDefault :: "string option \<Rightarrow> string \<Rightarrow> string" where
  \<comment> \<open>\<^verbatim>\<open>v || d\<close> where \<^verbatim>\<open>v\<close> is a string, \<^verbatim>\<open>undefined\<close> or \<^verbatim>\<open>null\<close>.\<close>
  "orDefault v d = (case v of None \<Rightarrow> d | Some s \<Rightarrow> if s = [] then d else s)"

definition ADMIN_USERNAMES :: "string list" where
  "ADMIN_USERNAMES = [''admin'']"

definition ADMIN_EMAILS :: "string list" where
  "ADMIN_EMAILS = [''admin@vibe-user.example.com'']"

definition isAdminIdentity :: "auth_user option \<Rightarrow> string \<Rightarrow> bool" where
  "isAdminIdentity user usernameHint =
     (let username =
            normalizeUsername
              (orDefault (Option.bind (Option.bind user user_metadata) meta_username) usernameHint);
          email = toLowerCase (orDefault (Option.bind user user_email) []);
          role = toLowerCase (orDefault (Option.bind (Option.bind user user_metadata) meta_role) [])
      in role = ''admin'' \<or> username \<in> set ADMIN_USERNAMES \<or> email \<in> set ADMIN_EMAILS)"

text \<open>The three inputs of the role derivation, read off the user object field by field.\<close>

fun metadataRole :: "auth_user option \<Rightarrow> string" where
  "metadataRole None = []"
| "metadataRole (Some u) =
     (case user_metadata u of
        None \<Rightarrow> []
      | Some m \<Rightarrow> (case meta_role m of None \<Rightarrow> [] | Some r \<Rightarrow> r))"

fun metadataUsername :: "auth_user option \<Rightarrow> string" where
  "metadataUsername None = []"
| "metadataUsername (Some u) =
     (case user_metadata u of
        None \<Rightarrow> []
      | Some m \<Rightarrow> (case meta_username m of None \<Rightarrow> [] | Some n \<Rightarrow> n))"

fun userEmail :: "auth_user option \<Rightarrow> string" where
  "userEmail None = []"
| "userEmail (Some u) = (case user_email u of None \<Rightarrow> [] | Some e \<Rightarrow> e)"

subsection \<open>Profile rows\<close>

text \<open>
  \<^verbatim>\<open>upsertCurrentUserProfile\<close> runs at every login and session restore, for every user:
  it writes the user's row of \<^verbatim>\<open>user_profiles\<close>. A user without an id writes nothing.
\<close>

record profile_row =
  p_user_id :: string
  p_email :: string
  p_real_email :: "string option"
  p_email_verified :: bool

definition upsertCurrentUserProfile :: "auth_user option \<Rightarrow> string \<Rightarrow> profile_row option" where
  "upsertCurrentUserProfile user realEmail =
     (if orDefault (Option.bind user user_id) [] = [] then None
      else
        let email =
              orElse realEmail
                (orDefault (Option.bind (Option.bind user user_metadata) meta_real_email)
                   (orDefault (Option.bind user user_email) []))
        in Some \<lparr>p_user_id = orDefault (Option.bind user user_id) [],
                 p_email = orDefault (Option.bind user user_email) [],
                 p_real_email = Some email,
                 p_email_verified = False\<rparr>)"

section \<open>The client: inventory and consumables\<close>

subsection \<open>Numbers as text\<close>

text \<open>
  Counts (\<^verbatim>\<open>qty\<close>, \<^verbatim>\<open>onHand\<close>, \<^verbatim>\<open>minLevel\<close>) are integers, well inside the range
  where JavaScript's numbers are exact, so they are \<^typ>\<open>int\<close>; times are milliseconds
  since the epoch. \<open>showInt\<close> is what a template literal prints for an integer.
\<close>

fun showNat :: "nat \<Rightarrow> string" where
  "showNat n =
     (if n < 10 then [char_of (48 + n)] else showNat (n div 10) @ [char_of (48 + n mod 10)])"

declare showNat.simps [simp del]

definition showInt :: "int \<Rightarrow> string" where
  "showInt i = (if i < 0 then CHR ''-'' # showNat (nat (- i)) else showNat (nat i))"

subsection \<open>State and backend calls\<close>

record item =
  it_id :: string
  it_name :: string
  it_tag :: string
  it_location :: string
  it_qty :: int
  it_checked :: bool
  it_note :: string
  it_createdBy :: string
  it_createdAt :: int
  it_updatedBy :: string
  it_updatedAt :: int

record consumable =
  c_id :: string
  c_name :: string
  c_category :: string
  c_unit :: string
  c_location :: string
  onHand :: int
  minLevel :: int

record item_patch =
  pa_item_name :: "string option"
  pa_tag :: "string option"
  pa_location :: "string option"
  pa_qty :: "int option"
  pa_notes :: "string option"
  pa_checked :: "bool option"
  pa_updated_by :: "string option"

record item_insert =
  in_id :: string
  in_item_name :: string
  in_tag :: string
  in_location :: string
  in_qty :: int
  in_notes :: "string option"
  in_checked :: bool
  in_created_by :: "string option"
  in_updated_by :: "string option"

record consumable_patch =
  cp_on_hand :: int
  cp_updated_at :: int
  cp_updated_by_name :: string
  cp_updated_by_username :: string

record low_stock_payload =
  consumable_id :: string
  name :: string
  on_hand :: int
  min_level :: int
  location :: string
  unit :: string
  updated_by_name :: string

text \<open>
  What a handler does to the outside, in the order of the source: the requests to the
  backend and every value \<^verbatim>\<open>setItems\<close> stores.
\<close>

datatype call =
    AuthGetUser
  | AuthGetSession
  | ItemUpdate "string option" item_patch
  | ItemInsert item_insert
  | ConsumableUpdate string consumable_patch
  | NotifyInvoke low_stock_payload string
  | LoadInventory
  | LoadConsumables
  | FormReset
  | ItemsSet "item list"

record client =
  items :: "item list"
  consumables :: "consumable list"
  isAdmin :: bool
  currentUser :: string
  currentName :: string
  toast :: string
  isAdding :: bool
  addError :: string
  addDebug :: string
  showAddDialog :: bool
  query :: string
  filter' :: string
  sort' :: string
  calls :: "call list"

definition setToast :: "string \<Rightarrow> client \<Rightarrow> client" where
  "setToast msg st = st\<lparr>toast := msg\<rparr>"

definition setItems :: "(item list \<Rightarrow> item list) \<Rightarrow> client \<Rightarrow> client" where
  \<comment> \<open>\<^verbatim>\<open>setItems((prev) => f(prev))\<close>\<close>
  "setItems f st = st\<lparr>items := f (items st), calls := calls st @ [ItemsSet (f (items st))]\<rparr>"

definition request :: "call \<Rightarrow> client \<Rightarrow> client" where
  "request c st = st\<lparr>calls := calls st @ [c]\<rparr>"

definition loadInventoryFromDb :: "client \<Rightarrow> client" where
  \<comment> \<open>The reload is started and not awaited; what it fetches is the backend's.\<close>
  "loadInventoryFromDb st = request LoadInventory st"

definition loadConsumablesFromDb :: "client \<Rightarrow> client" where
  "loadConsumablesFromDb st = request LoadConsumables st"

subsection \<open>adjustConsumable\<close>

datatype invoke_outcome =
    InvokeData "string option"  \<comment> \<open>resolved without error; \<^verbatim>\<open>notifyData?.message\<close>\<close>
  | InvokeError string string   \<comment> \<open>\<^verbatim>\<open>notifyError\<close>: the detail read from its response (or \<^verbatim>\<open>""\<close>), and its message\<close>
  | InvokeThrows                \<comment> \<open>the call throws\<close>

record adjust_env =
  ae_now :: int
  ae_updateError :: "string option"   \<comment> \<open>\<^verbatim>\<open>error.message\<close> of the update, if it failed\<close>
  ae_sessionError :: bool
  ae_accessToken :: "string option"   \<comment> \<open>\<^verbatim>\<open>sessionData?.session?.access_token\<close>\<close>
  ae_invoke :: invoke_outcome

definition find_first :: "('a \<Rightarrow> bool) \<Rightarrow> 'a list \<Rightarrow> 'a option" where
  \<comment> \<open>\<^verbatim>\<open>Array.prototype.find\<close>\<close>
  "find_first P xs = List.find P xs"

definition lowStockPayload :: "client \<Rightarrow> consumable \<Rightarrow> string \<Rightarrow> int \<Rightarrow> low_stock_payload" where
  "lowStockPayload st current cid nextOnHand =
     \<lparr>consumable_id = cid,
      name = orElse (c_name current) ''Unknown'',
      on_hand = nextOnHand,
      min_level = minLevel current,
      location = orElse (c_location current) ''Unknown'',
      unit = orElse (c_unit current) ''pcs'',
      updated_by_name = orElse (currentName st) (orElse (currentUser st) ''Unknown'')\<rparr>"

definition notifyToast :: "invoke_outcome \<Rightarrow> client \<Rightarrow> client" where
  "notifyToast r st =
     (case r of
        InvokeError detailed message \<Rightarrow>
          setToast
            (take 220
               (if detailed \<noteq> [] then ''Low-stock email failed: '' @ detailed
                else if message \<noteq> [] then ''Low-stock email failed: '' @ message
                else ''Low-stock email trigger failed. Check Edge Function logs.''))
            st
      | InvokeData m \<Rightarrow> (if orDefault m [] \<noteq> [] then setToast (orDefault m []) st else st)
      | InvokeThrows \<Rightarrow> setToast ''Low-stock email trigger failed. Check Edge Function logs.'' st)"

definition adjustConsumable :: "adjust_env \<Rightarrow> client \<Rightarrow> string \<Rightarrow> int \<Rightarrow> client" where
  "adjustConsumable env st cid delta =
     (case find_first (\<lambda>c. c_id c = cid) (consumables st) of
        None \<Rightarrow> st
      | Some current \<Rightarrow>
          let nextOnHand = max 0 (onHand current + delta);
              currentOnHand = onHand current;
              minLvl = minLevel current;
              st1 = request
                      (ConsumableUpdate cid
                         \<lparr>cp_on_hand = nextOnHand,
                          cp_updated_at = ae_now env,
                          cp_updated_by_name =
                            orElse (currentName st) (orElse (currentUser st) ''Unknown''),
                          cp_updated_by_username = orElse (currentUser st) ''unknown''\<rparr>)
                      st
          in (case ae_updateError env of
               Some m \<Rightarrow> setToast (''Consumable update error: '' @ m) st1
             | None \<Rightarrow>
                 let wasAboveMin = currentOnHand > minLvl;
                     isNowBelowMin = nextOnHand \<le> minLvl;
                     st2 =
                       (if delta < 0 \<and> \<not> isAdmin st then
                          setToast ''No email trigger: you are not admin.'' st1
                        else if delta < 0 \<and> \<not> wasAboveMin then
                          setToast ''No email trigger: item was already at/below min level.'' st1
                        else if delta < 0 \<and> wasAboveMin \<and> \<not> isNowBelowMin then
                          setToast
                            (''No email trigger: stock is still above min ('' @ showInt nextOnHand
                               @ '' > '' @ showInt minLvl @ '').'')
                            st1
                        else st1)
                 in if wasAboveMin \<and> isNowBelowMin \<and> isAdmin st then
                      let st3 = request AuthGetSession st2;
                          accessToken = orDefault (ae_accessToken env) []
                      in if ae_sessionError env \<or> accessToken = [] then
                           setToast
                             ''Low-stock email failed: session expired. Please log in again.'' st3
                         else
                           let payload = lowStockPayload st current cid nextOnHand;
                               st4 = request (NotifyInvoke payload accessToken) st3
                           in loadConsumablesFromDb (notifyToast (ae_invoke env) st4)
                    else loadConsumablesFromDb st2))"

text \<open>The invocations of \<^verbatim>\<open>notify-low-stock\<close> and the stock writes among a handler's calls.\<close>

fun notifyInvocations :: "call list \<Rightarrow> low_stock_payload list" where
  "notifyInvocations [] = []"
| "notifyInvocations (NotifyInvoke p t # cs) = p # notifyInvocations cs"
| "notifyInvocations (c # cs) = notifyInvocations cs"

fun onHandWrites :: "call list \<Rightarrow> (string \<times> int) list" where
  "onHandWrites [] = []"
| "onHandWrites (ConsumableUpdate i p # cs) = (i, cp_on_hand p) # onHandWrites cs"
| "onHandWrites (c # cs) = onHandWrites cs"

subsection \<open>ConsumablesPage\<close>

definition filteredConsumables :: "string \<Rightarrow> consumable list \<Rightarrow> consumable list" where
  "filteredConsumables locationFilter cs =
     (if locationFilter \<noteq> [] then filter (\<lambda>c. orElse (c_location c) [] = locationFilter) cs
      else [])"

subsection \<open>upsertItem\<close>

text \<open>
  The partial change, typed as the call sites build it (\<^verbatim>\<open>{ id, checked }\<close> from the
  check button, \<^verbatim>\<open>{ id, name, tag, location, qty, note }\<close> from the row editor): a key
  that is present holds a value of its type, \<^const>\<open>None\<close> is an absent key, and
  \<open>pt_otherKeys\<close> lists any further own keys of the object.
\<close>

record item_partial =
  pt_id :: "string option"
  pt_name :: "string option"
  pt_tag :: "string option"
  pt_location :: "string option"
  pt_qty :: "int option"
  pt_note :: "string option"
  pt_checked :: "bool option"
  pt_otherKeys :: "string list"

definition keyIf :: "'a option \<Rightarrow> string \<Rightarrow> string list" where
  "keyIf v k = (case v of None \<Rightarrow> [] | Some _ \<Rightarrow> [k])"

definition objectKeys :: "item_partial \<Rightarrow> string list" where
  \<comment> \<open>\<^verbatim>\<open>Object.keys(partial)\<close>\<close>
  "objectKeys p =
     keyIf (pt_id p) ''id'' @ keyIf (pt_name p) ''name'' @ keyIf (pt_tag p) ''tag''
       @ keyIf (pt_location p) ''location'' @ keyIf (pt_qty p) ''qty''
       @ keyIf (pt_note p) ''note'' @ keyIf (pt_checked p) ''checked'' @ pt_otherKeys p"

definition hasKey :: "string \<Rightarrow> item_partial \<Rightarrow> bool" where
  \<comment> \<open>\<^verbatim>\<open>k in partial\<close>\<close>
  "hasKey k p = (k \<in> set (objectKeys p))"

definition isCheckedOnlyUpdate :: "item_partial \<Rightarrow> bool" where
  "isCheckedOnlyUpdate p =
     (hasKey ''checked'' p \<and> list_all (\<lambda>k. k = ''id'' \<or> k = ''checked'') (objectKeys p))"

definition startsWith :: "string \<Rightarrow> string \<Rightarrow> bool" where
  "startsWith s pre = (take (length pre) s = pre)"

record upsert_env =
  ue_authError :: bool
  ue_user :: "auth_user option"       \<comment> \<open>\<^verbatim>\<open>authData?.user\<close>\<close>
  ue_updateError :: "string option"   \<comment> \<open>\<^verbatim>\<open>error.message\<close> of the update, if it failed\<close>

definition itemPatch :: "item_partial \<Rightarrow> auth_user \<Rightarrow> item_patch" where
  "itemPatch p u =
     \<lparr>pa_item_name = map_option (\<lambda>v. trim (orElse v [])) (pt_name p),
      pa_tag = map_option (\<lambda>v. trim (orElse v [])) (pt_tag p),
      pa_location = map_option (\<lambda>v. trim (orElse v [])) (pt_location p),
      pa_qty = map_option (\<lambda>n. if n = 0 then 1 else n) (pt_qty p),
      pa_notes = map_option (\<lambda>v. trim (orElse v [])) (pt_note p),
      pa_checked = pt_checked p,
      pa_updated_by = user_id u\<rparr>"

definition upsertItem :: "upsert_env \<Rightarrow> client \<Rightarrow> item_partial \<Rightarrow> client" where
  "upsertItem env st p =
     (if \<not> isAdmin st \<and> \<not> isCheckedOnlyUpdate p then
        setToast ''Only admin can edit item details.'' st
      else if (case pt_id p of None \<Rightarrow> False | Some i \<Rightarrow> startsWith i ''tmp_'') then
        loadInventoryFromDb (setToast ''Syncing item, please try again.'' st)
      else
        let st1 = request AuthGetUser st
        in case (if ue_authError env then None else ue_user env) of
             None \<Rightarrow> setToast ''Session expired. Please log in again.'' st1
           | Some u \<Rightarrow>
               let st2 = request (ItemUpdate (pt_id p) (itemPatch p u)) st1
               in (case ue_updateError env of
                     Some m \<Rightarrow> setToast (''Update error: '' @ m) st2
                   | None \<Rightarrow> loadInventoryFromDb (setToast ''Saved'' st2)))"

text \<open>The writes to the database among a handler's calls.\<close>

fun isDbWrite :: "call \<Rightarrow> bool" where
  "isDbWrite (ItemUpdate i p) = True"
| "isDbWrite (ItemInsert r) = True"
| "isDbWrite (ConsumableUpdate i p) = True"
| "isDbWrite c = False"

definition dbWrites :: "call list \<Rightarrow> call list" where
  "dbWrites cs = filter isDbWrite cs"

subsection \<open>addItem\<close>

text \<open>
  The submit event: whether its target is the form, and the form's fields as
  \<^verbatim>\<open>FormData.get\<close> returns them (\<^const>\<open>None\<close> for \<^verbatim>\<open>null\<close>). The \<^verbatim>\<open>qty\<close> input has
  \<^verbatim>\<open>type="number"\<close>: its text is empty or a numeral, read here as the integer it denotes.
\<close>

record add_event =
  ev_isForm :: bool
  fd_name :: "string option"
  fd_tag :: "string option"
  fd_location :: "string option"
  fd_qty :: "int option"
  fd_note :: "string option"

datatype insert_outcome =
    InsertOk
  | InsertError string    \<comment> \<open>the insert resolves with \<^verbatim>\<open>error\<close>; its message\<close>
  | InsertThrows string   \<comment> \<open>the awaited call rejects; the text the handler prints for it\<close>

record add_env =
  ad_authError :: bool
  ad_user :: "auth_user option"
  ad_now :: int             \<comment> \<open>\<^verbatim>\<open>Date.now()\<close>\<close>
  ad_uuid :: string         \<comment> \<open>\<^verbatim>\<open>genUuid()\<close>\<close>
  ad_insert :: insert_outcome

definition addFailed :: "string \<Rightarrow> client \<Rightarrow> client" where
  \<comment> \<open>\<^verbatim>\<open>setToast(msg); setAddError(msg); setAddDebug(msg);\<close>\<close>
  "addFailed msg st = (setToast msg st)\<lparr>addError := msg, addDebug := msg\<rparr>"

definition optimisticItem :: "add_env \<Rightarrow> client \<Rightarrow> add_event \<Rightarrow> auth_user \<Rightarrow> item" where
  "optimisticItem env st e u =
     \<lparr>it_id = ad_uuid env,
      it_name = trim (orDefault (fd_name e) []),
      it_tag = trim (orDefault (fd_tag e) []),
      it_location = trim (orDefault (fd_location e) []),
      it_qty = (case fd_qty e of None \<Rightarrow> 1 | Some n \<Rightarrow> if n = 0 then 1 else n),
      it_checked = False,
      it_note = trim (orDefault (fd_note e) []),
      it_createdBy = orElse (currentUser st) (orDefault (user_id u) []),
      it_createdAt = ad_now env,
      it_updatedBy = orElse (currentUser st) (orDefault (user_id u) []),
      it_updatedAt = ad_now env\<rparr>"

definition insertRow :: "item \<Rightarrow> auth_user \<Rightarrow> item_insert" where
  "insertRow x u =
     \<lparr>in_id = it_id x,
      in_item_name = it_name x,
      in_tag = it_tag x,
      in_location = it_location x,
      in_qty = it_qty x,
      in_notes = (if it_note x = [] then None else Some (it_note x)),
      in_checked = False,
      in_created_by = user_id u,
      in_updated_by = user_id u\<rparr>"

definition addItem_try :: "add_env \<Rightarrow> client \<Rightarrow> add_event \<Rightarrow> client" where
  \<comment> \<open>The \<^verbatim>\<open>try\<close> block with its \<^verbatim>\<open>catch\<close>.\<close>
  "addItem_try env st e =
     (let st1 = request AuthGetUser st
      in case (if ad_authError env then None else ad_user env) of
           None \<Rightarrow> addFailed ''Session expired. Please log in again.'' st1
         | Some u \<Rightarrow>
             if trim (orDefault (fd_name e) []) = [] then st1\<lparr>addDebug := ''Name is required.''\<rparr>
             else
               let x = optimisticItem env st e u;
                   itemId = it_id x;
                   st2 = (setItems (\<lambda>prev. x # prev) st1)
                           \<lparr>addDebug := ''Staged locally. Sending to Supabase...''\<rparr>;
                   st3 = request (ItemInsert (insertRow x u)) st2
               in (case ad_insert env of
                     InsertError m \<Rightarrow>
                       addFailed (''Insert error: '' @ m)
                         (setItems (\<lambda>prev. filter (\<lambda>y. it_id y \<noteq> itemId) prev) st3)
                   | InsertThrows m \<Rightarrow> addFailed (''Unhandled add error: '' @ m) st3
                   | InsertOk \<Rightarrow>
                       setToast ''Added''
                         ((request FormReset st3)
                            \<lparr>query := [], filter' := ''all'', sort' := ''recent'',
                             addError := [], addDebug := ''Added.'', showAddDialog := False\<rparr>)))"

definition addItem :: "add_env \<Rightarrow> client \<Rightarrow> add_event \<Rightarrow> client" where
  "addItem env st e =
     (if \<not> isAdmin st then setToast ''Only admin can add items.'' st
      else if \<not> ev_isForm e then addFailed ''Add form not found. Please reload.'' st
      else if isAdding st then st
      else
        (addItem_try env (st\<lparr>isAdding := True, addDebug := ''Submitting...''\<rparr>) e)
          \<lparr>isAdding := False\<rparr>)"

text \<open>The values \<^verbatim>\<open>setItems\<close> stored, in order.\<close>

fun itemsHistory :: "call list \<Rightarrow> item list list" where
  "itemsHistory [] = []"
| "itemsHistory (ItemsSet xs # cs) = xs # itemsHistory cs"
| "itemsHistory (c # cs) = itemsHistory cs"

section \<open>The notification function\<close>

text \<open>
  The \<^verbatim>\<open>notify-low-stock\<close> edge function: one handler, given to \<^verbatim>\<open>serve\<close>. Its payload
  is typed by the source's \<^verbatim>\<open>LowStockPayload\<close>, the record \<^typ>\<open>low_stock_payload\<close> above.
\<close>

subsection \<open>Tables, requests and responses\<close>

record log_row =
  lg_consumable_id :: string
  lg_notification_type :: string
  lg_status :: string
  lg_sent_to_emails :: "string list"
  lg_trigger_value :: int
  lg_error_message :: "string option"
  lg_sent_at :: int

record brevo_email =
  em_api_key :: string
  em_sender_email :: string
  em_sender_name :: string
  em_to :: "string list"
  em_subject :: string
  em_html :: string

text \<open>
  What the function reads and writes: the two tables, and the requests it has posted to
  the transactional-email API.
\<close>

record world =
  notification_logs :: "log_row list"
  user_profiles :: "profile_row list"
  brevo_requests :: "brevo_email list"

datatype brevo_outcome =
    BrevoResponse nat     \<comment> \<open>the API answers, with this HTTP status\<close>
  | BrevoThrows string    \<comment> \<open>\<^verbatim>\<open>fetch\<close> rejects; the error's message\<close>

record serve_env =
  BREVO_API_KEY :: "string option"
  BREVO_FROM_EMAIL :: "string option"
  BREVO_FROM_NAME :: "string option"
  sv_now :: int             \<comment> \<open>the time of the invocation, in milliseconds\<close>
  sv_tzOffset :: int        \<comment> \<open>local time minus UTC, in milliseconds\<close>
  sv_checkError :: bool     \<comment> \<open>the duplicate-check query resolves with \<^verbatim>\<open>error\<close>\<close>
  sv_adminError :: bool     \<comment> \<open>the \<^verbatim>\<open>user_profiles\<close> query resolves with \<^verbatim>\<open>error\<close>\<close>
  sv_brevo :: brevo_outcome

record http_request =
  rq_method :: string
  rq_json :: "string + low_stock_payload"   \<comment> \<open>\<^verbatim>\<open>req.json()\<close>: \<^const>\<open>Inl\<close> when it throws\<close>

datatype body =
    Plain string
  | ErrorBody string                     \<comment> \<open>\<^verbatim>\<open>{ error }\<close>\<close>
  | SuccessBody "string list option" string   \<comment> \<open>\<^verbatim>\<open>{ success: true, sent_to?, message }\<close>\<close>

record response =
  rs_status :: nat
  rs_body :: body

subsection \<open>The handler\<close>

definition fromEmail :: "serve_env \<Rightarrow> string" where
  "fromEmail env = orDefault (BREVO_FROM_EMAIL env) ''alerts@inventory-vibe.local''"

definition fromName :: "serve_env \<Rightarrow> string" where
  "fromName env = orDefault (BREVO_FROM_NAME env) ''Inventory Vibe''"

definition startOfToday :: "serve_env \<Rightarrow> int" where
  \<comment> \<open>\<^verbatim>\<open>new Date(new Date().setHours(0, 0, 0, 0))\<close>: the last local midnight.\<close>
  "startOfToday env = sv_now env - ((sv_now env + sv_tzOffset env) mod 86400000)"

definition endsWith :: "string \<Rightarrow> string \<Rightarrow> bool" where
  "endsWith s suf = (length suf \<le> length s \<and> drop (length s - length suf) s = suf)"

definition includes' :: "string \<Rightarrow> char \<Rightarrow> bool" where
  "includes' s c = (c \<in> set s)"

definition replaceAll :: "char \<Rightarrow> string \<Rightarrow> string \<Rightarrow> string" where
  \<comment> \<open>\<^verbatim>\<open>text.replace(/c/g, r)\<close> for a single character \<^verbatim>\<open>c\<close>\<close>
  "replaceAll c r s = concat (map (\<lambda>x. if x = c then r else [x]) s)"

definition escapeHtml :: "string \<Rightarrow> string" where
  "escapeHtml s =
     replaceAll (CHR 0x27) ''&#039;''
       (replaceAll (CHR 0x22) ''&quot;''
          (replaceAll CHR ''>'' ''&gt;''
             (replaceAll CHR ''<'' ''&lt;'' (replaceAll CHR ''&'' ''&amp;'' s))))"

definition htmlContent :: "low_stock_payload \<Rightarrow> string" where
  \<open>htmlContent payload =
     ''\<newline>''
     @ ''      <div style="font-family: Arial, sans-serif; max-width: 600px; margin: 0 auto;">\<newline>''
       @ ''        <div style="background: #ff6b6b; color: white; padding: 20px; border-radius: 8px 8px 0 0;">\<newline>''
       @ ''          <h1 style="margin: 0; font-size: 24px;">Stock Alert</h1>\<newline>''
       @ ''        </div>\<newline>''
       @ ''        <div style="background: #f5f5f5; padding: 20px; border-radius: 0 0 8px 8px;">\<newline>''
       @ ''          <p><strong>Item:</strong> ''
       @ escapeHtml (name payload)
       @ ''</p>\<newline>''
       @ ''          <p><strong>Location:</strong> ''
       @ escapeHtml (location payload)
       @ ''</p>\<newline>''
       @ ''          <p><strong>Current Stock:</strong> ''
       @ showInt (on_hand payload)
       @ '' ''
       @ escapeHtml (unit payload)
       @ ''</p>\<newline>''
       @ ''          <p><strong>Minimum Required:</strong> ''
       @ showInt (min_level payload)
       @ '' ''
       @ escapeHtml (unit payload)
       @ ''</p>\<newline>''
       @ ''          <p><strong>Last Updated By:</strong> ''
       @ escapeHtml (updated_by_name payload)
       @ ''</p>\<newline>''
       @ ''          <p style="color: #999; margin-top: 30px; font-size: 12px;">\<newline>''
       @ ''            This is an automated alert from Inventory Vibe.\<newline>''
       @ ''          </p>\<newline>''
       @ ''        </div>\<newline>''
       @ ''      </div>\<newline>''
       @ ''    ''
\<close>

definition recentNotif :: "serve_env \<Rightarrow> world \<Rightarrow> string \<Rightarrow> log_row list option" where
  \<comment> \<open>The duplicate check's \<^verbatim>\<open>data\<close>: \<^const>\<open>None\<close> (\<^verbatim>\<open>null\<close>) when the query fails.\<close>
  "recentNotif env w cid =
     (if sv_checkError env then None
      else Some (take 1
             (filter
                (\<lambda>r. lg_consumable_id r = cid \<and> lg_sent_at r \<ge> startOfToday env
                     \<and> lg_status r = ''sent'')
                (notification_logs w))))"

definition alreadySentToday :: "serve_env \<Rightarrow> world \<Rightarrow> string \<Rightarrow> bool" where
  \<comment> \<open>\<^verbatim>\<open>recentNotif && recentNotif.length > 0\<close>\<close>
  "alreadySentToday env w cid =
     (case recentNotif env w cid of None \<Rightarrow> False | Some rs \<Rightarrow> length rs > 0)"

definition isRealAddress :: "string \<Rightarrow> bool" where
  "isRealAddress email =
     (email \<noteq> [] \<and> \<not> endsWith email ''@vibe-user.example.com'' \<and> includes' email CHR ''@'')"

definition logRow :: "serve_env \<Rightarrow> low_stock_payload \<Rightarrow> string \<Rightarrow> string list \<Rightarrow> string option \<Rightarrow> log_row" where
  \<comment> \<open>The inserted row; \<^verbatim>\<open>sent_at\<close> is left to the table, which stamps the time of the insert.\<close>
  "logRow env payload status emails err =
     \<lparr>lg_consumable_id = consumable_id payload,
      lg_notification_type = ''low_stock'',
      lg_status = status,
      lg_sent_to_emails = emails,
      lg_trigger_value = on_hand payload,
      lg_error_message = err,
      lg_sent_at = sv_now env\<rparr>"

definition insertLog :: "log_row \<Rightarrow> world \<Rightarrow> world" where
  \<comment> \<open>The insert is awaited and its result is not read.\<close>
  "insertLog r w = w\<lparr>notification_logs := notification_logs w @ [r]\<rparr>"

definition json :: "nat \<Rightarrow> body \<Rightarrow> response" where
  "json st b = \<lparr>rs_status = st, rs_body = b\<rparr>"

definition serve_try :: "serve_env \<Rightarrow> world \<Rightarrow> http_request \<Rightarrow> response \<times> world" where
  \<comment> \<open>The \<^verbatim>\<open>try\<close> block with its \<^verbatim>\<open>catch\<close>.\<close>
  "serve_try env w rq =
     (if orDefault (BREVO_API_KEY env) [] = [] then
        (json 500 (ErrorBody ''Missing BREVO_API_KEY in Edge Function secrets''), w)
      else
        case rq_json rq of
          Inl msg \<Rightarrow> (json 500 (ErrorBody msg), w)
        | Inr payload \<Rightarrow>
            if consumable_id payload = [] \<or> name payload = [] then
              (json 400 (ErrorBody ''Missing required fields''), w)
            else if alreadySentToday env w (consumable_id payload) then
              (json 200 (SuccessBody None ''Notification already sent today for this item''), w)
            else if sv_adminError env then
              (json 500 (ErrorBody ''Failed to fetch admin users''), w)
            else
              let adminUsers = filter (\<lambda>u. p_real_email u \<noteq> None) (user_profiles w)
              in if adminUsers = [] then
                   (json 400 (ErrorBody ''No admin users with email configured''),
                    insertLog
                      (logRow env payload ''failed'' [] (Some ''No admin users found'')) w)
                 else
                   let realEmails = filter isRealAddress (List.map_filter p_real_email adminUsers)
                   in if realEmails = [] then
                        (json 400 (ErrorBody ''No admin users with real email addresses configured''),
                         insertLog
                           (logRow env payload ''failed'' []
                              (Some ''No admin users with real email addresses'')) w)
                      else
                        let w1 = w\<lparr>brevo_requests := brevo_requests w @
                                   [\<lparr>em_api_key = orDefault (BREVO_API_KEY env) [],
                                     em_sender_email = fromEmail env,
                                     em_sender_name = fromName env,
                                     em_to = realEmails,
                                     em_subject = ''LOW STOCK ALERT: '' @ name payload,
                                     em_html = htmlContent payload\<rparr>]\<rparr>
                        in (case sv_brevo env of
                              BrevoThrows msg \<Rightarrow> (json 500 (ErrorBody msg), w1)
                            | BrevoResponse status \<Rightarrow>
                                if \<not> (200 \<le> status \<and> status \<le> 299) then
                                  (json 500 (ErrorBody (''Brevo error: '' @ showNat status)),
                                   insertLog
                                     (logRow env payload ''failed'' realEmails
                                        (Some (''Brevo error: '' @ showNat status))) w1)
                                else
                                  (json 200
                                     (SuccessBody (Some realEmails)
                                        (''Low stock notification sent to ''
                                           @ showNat (length realEmails) @ '' admin(s)'')),
                                   insertLog (logRow env payload ''sent'' realEmails None) w1)))"

definition serve :: "serve_env \<Rightarrow> world \<Rightarrow> http_request \<Rightarrow> response \<times> world" where
  "serve env w rq =
     (if rq_method rq = ''OPTIONS'' then (\<lparr>rs_status = 200, rs_body = Plain ''ok''\<rparr>, w)
      else if rq_method rq \<noteq> ''POST'' then (json 405 (ErrorBody ''Method not allowed''), w)
      else serve_try env w rq)"

section \<open>The spec's terms, and sample data\<close>

text \<open>
  A low-stock crossing, in the glossary's words: the on-hand count goes from above the
  minimum to at or below it.
\<close>

definition lowStockCrossing :: "consumable \<Rightarrow> int \<Rightarrow> bool" where
  "lowStockCrossing c delta =
     (onHand c > minLevel c \<and> max 0 (onHand c + delta) \<le> minLevel c)"

definition tape :: consumable where
  "tape = \<lparr>c_id = ''c1'', c_name = ''Tape'', c_category = ''supplies'', c_unit = ''rolls'',
            c_location = ''Clancy'', onHand = 3, minLevel = 2\<rparr>"

definition staff_client :: client where
  "staff_client =
     \<lparr>items = [], consumables = [tape], isAdmin = False, currentUser = ''bob'',
      currentName = ''Bob'', toast = [], isAdding = False, addError = [], addDebug = [],
      showAddDialog = False, query = [], filter' = ''all'', sort' = ''recent'', calls = []\<rparr>"

definition admin_client :: client where
  "admin_client =
     staff_client\<lparr>isAdmin := True, currentUser := ''admin'', currentName := ''Admin''\<rparr>"

definition adjust_ok :: adjust_env where
  "adjust_ok =
     \<lparr>ae_now = 1000, ae_updateError = None, ae_sessionError = False,
      ae_accessToken = Some ''token'', ae_invoke = InvokeData None\<rparr>"

definition bob_user :: auth_user where
  "bob_user =
     \<lparr>user_id = Some ''u-bob'', user_email = Some ''bob@vibe-user.example.com'',
      user_metadata =
        Some \<lparr>meta_username = Some ''bob'', meta_role = None,
              meta_real_email = Some ''bob@mail.example''\<rparr>\<rparr>"

definition boss_user :: auth_user where
  "boss_user =
     \<lparr>user_id = Some ''u-admin'', user_email = Some ''admin@vibe-user.example.com'',
      user_metadata =
        Some \<lparr>meta_username = Some ''admin'', meta_role = None,
              meta_real_email = Some ''boss@corp.example''\<rparr>\<rparr>"

definition upsert_ok :: upsert_env where
  "upsert_ok = \<lparr>ue_authError = False, ue_user = Some bob_user, ue_updateError = None\<rparr>"

definition no_change :: item_partial where
  "no_change =
     \<lparr>pt_id = None, pt_name = None, pt_tag = None, pt_location = None, pt_qty = None,
      pt_note = None, pt_checked = None, pt_otherKeys = []\<rparr>"

definition mixer :: item where
  "mixer =
     \<lparr>it_id = ''i1'', it_name = ''Mixer'', it_tag = ''AUD-1'', it_location = ''Rack A'',
      it_qty = 1, it_checked = False, it_note = [], it_createdBy = ''admin'',
      it_createdAt = 10, it_updatedBy = ''admin'', it_updatedAt = 10\<rparr>"

definition add_form :: add_event where
  "add_form =
     \<lparr>ev_isForm = True, fd_name = Some '' Cable '', fd_tag = Some ''CAB-1'',
      fd_location = Some ''Wall'', fd_qty = Some 2, fd_note = Some []\<rparr>"

definition add_rejected :: add_env where
  "add_rejected =
     \<lparr>ad_authError = False, ad_user = Some boss_user, ad_now = 2000, ad_uuid = ''i2'',
      ad_insert = InsertError ''permission denied''\<rparr>"


definition boss_row :: profile_row where
  "boss_row =
     \<lparr>p_user_id = ''u-admin'', p_email = ''admin@vibe-user.example.com'',
      p_real_email = Some ''boss@corp.example'', p_email_verified = False\<rparr>"

definition bob_row :: profile_row where
  "bob_row =
     \<lparr>p_user_id = ''u-bob'', p_email = ''bob@vibe-user.example.com'',
      p_real_email = Some ''bob@mail.example'', p_email_verified = False\<rparr>"

definition tape_low :: low_stock_payload where
  "tape_low =
     \<lparr>consumable_id = ''c1'', name = ''Tape'', on_hand = 2, min_level = 2,
      location = ''Clancy'', unit = ''rolls'', updated_by_name = ''Admin''\<rparr>"

definition post_tape :: http_request where
  "post_tape = \<lparr>rq_method = ''POST'', rq_json = Inr tape_low\<rparr>"

text \<open>
  An invocation at 03:46:40 UTC of the second day of the epoch, on a server in UTC, and a
  \<^verbatim>\<open>sent\<close> row written an hour after that day's midnight.
\<close>

definition serve_ok :: serve_env where
  "serve_ok =
     \<lparr>BREVO_API_KEY = Some ''key'', BREVO_FROM_EMAIL = None, BREVO_FROM_NAME = None,
      sv_now = 100000000, sv_tzOffset = 0, sv_checkError = False, sv_adminError = False,
      sv_brevo = BrevoResponse 201\<rparr>"

definition sent_today :: log_row where
  "sent_today =
     \<lparr>lg_consumable_id = ''c1'', lg_notification_type = ''low_stock'', lg_status = ''sent'',
      lg_sent_to_emails = [''boss@corp.example''], lg_trigger_value = 2,
      lg_error_message = None, lg_sent_at = 90000000\<rparr>"

definition world_sent :: world where
  "world_sent =
     \<lparr>notification_logs = [sent_today], user_profiles = [boss_row], brevo_requests = []\<rparr>"

definition world_fresh :: world where
  "world_fresh =
     \<lparr>notification_logs = [], user_profiles = [boss_row, bob_row], brevo_requests = []\<rparr>"

section \<open>Verification: auth flow\<close>

lemma dropWhile_filter_not:
  "filter (\<lambda>c. \<not> P c) (dropWhile P cs) = filter (\<lambda>c. \<not> P c) cs"
  by (induction cs) auto

lemma replaceWsRuns_filter: "replaceWsRuns s = filter (\<lambda>c. \<not> isWhiteSpace c) s"
  by (induction s rule: replaceWsRuns.induct) (simp_all add: dropWhile_filter_not)

lemma replaceNonLocalPart_filter: "replaceNonLocalPart s = filter isLocalPartChar s"
  by (induction s) auto

text \<open>
  C7. For every raw username string, \<open>usernameToAuthEmail\<close> returns the local part
  followed by \<^verbatim>\<open>@vibe-user.example.com\<close>, where the local part is the input trimmed,
  lowercased, with all white space removed and every character outside
  \<^verbatim>\<open>[a-z0-9._-]\<close> deleted; when the local part is empty it returns the empty string.
\<close>

theorem usernameToAuthEmail_spec:
  "usernameToAuthEmail raw =
     (if spec_localPart raw = [] then [] else spec_localPart raw @ ''@vibe-user.example.com'')"
  by (simp add: usernameToAuthEmail_def normalizeUsername_def spec_localPart_def Let_def
      replaceWsRuns_filter replaceNonLocalPart_filter toLowerCase_def orElse_def)

theorem usernameToAuthEmail_spec_witness:
  "usernameToAuthEmail ''  John Doe! '' = ''johndoe@vibe-user.example.com''
   \<and> usernameToAuthEmail '' !? '' = []"
proof -
  have a: "spec_localPart ''  John Doe! '' = ''johndoe''" by code_simp
  have b: "spec_localPart '' !? '' = []" by code_simp
  show ?thesis
    using usernameToAuthEmail_spec [of "''  John Doe! ''"] usernameToAuthEmail_spec [of "'' !? ''"]
    by (simp add: a b)
qed

lemma orDefault_role:
  "orDefault (Option.bind (Option.bind user user_metadata) meta_role) [] = metadataRole user"
  by (cases user) (auto simp: orDefault_def split: option.splits)

lemma orDefault_username:
  "orDefault (Option.bind (Option.bind user user_metadata) meta_username) hint =
     (if metadataUsername user = [] then hint else metadataUsername user)"
  by (cases user) (auto simp: orDefault_def split: option.splits)

lemma orDefault_email: "orDefault (Option.bind user user_email) [] = userEmail user"
  by (cases user) (auto simp: orDefault_def split: option.splits)

text \<open>
  C8. For every user object and username hint, \<open>isAdminIdentity\<close> is true if and only if
  the user's metadata role, lowercased, equals \<^verbatim>\<open>admin\<close>, or the normalized username
  (taken from the user metadata, falling back to the hint) is \<^verbatim>\<open>admin\<close>, or the user's
  email, lowercased, is \<^verbatim>\<open>admin@vibe-user.example.com\<close>.
\<close>

theorem isAdminIdentity_iff:
  "isAdminIdentity user usernameHint \<longleftrightarrow>
     toLowerCase (metadataRole user) = ''admin''
     \<or> normalizeUsername
          (if metadataUsername user = [] then usernameHint else metadataUsername user) = ''admin''
     \<or> toLowerCase (userEmail user) = ''admin@vibe-user.example.com''"
  unfolding isAdminIdentity_def Let_def orDefault_role orDefault_username orDefault_email
  by (simp add: ADMIN_USERNAMES_def ADMIN_EMAILS_def)

theorem isAdminIdentity_iff_witness:
  "isAdminIdentity
     (Some \<lparr>user_id = Some ''u1'', user_email = Some ''bob@vibe-user.example.com'',
            user_metadata =
              Some \<lparr>meta_username = None, meta_role = Some ''Admin'', meta_real_email = None\<rparr>\<rparr>)
     []
   \<and> isAdminIdentity None '' Ad Min ''
   \<and> \<not> isAdminIdentity
     (Some \<lparr>user_id = Some ''u2'', user_email = Some ''bob@vibe-user.example.com'',
            user_metadata =
              Some \<lparr>meta_username = Some ''bob'', meta_role = None, meta_real_email = None\<rparr>\<rparr>)
     ''admin''"
proof -
  have a: "toLowerCase ''Admin'' = ''admin''" by code_simp
  have b: "normalizeUsername '' Ad Min '' = ''admin''" by code_simp
  have c: "normalizeUsername ''bob'' \<noteq> ''admin''" by code_simp
  have d: "toLowerCase ''bob@vibe-user.example.com'' \<noteq> ''admin@vibe-user.example.com''"
    by code_simp
  have e: "toLowerCase [] \<noteq> ''admin''" by code_simp
  show ?thesis
    by (simp add: isAdminIdentity_iff a b c d e)
qed

section \<open>Verification: consumables\<close>

text \<open>
  C10. In \<open>ConsumablesPage\<close>, when the selected location filter is the empty string the
  displayed list is empty, whatever consumables exist; once a location is selected the
  list holds exactly the consumables whose location equals it, in their order.
\<close>

theorem filteredConsumables_spec:
  "filteredConsumables locationFilter cs =
     (if locationFilter = [] then [] else filter (\<lambda>c. c_location c = locationFilter) cs)"
  by (auto simp: filteredConsumables_def orElse_def intro: filter_cong)

theorem filteredConsumables_spec_witness:
  "filteredConsumables []
     [\<lparr>c_id = ''c1'', c_name = ''Tape'', c_category = [], c_unit = ''pcs'',
       c_location = ''Clancy'', onHand = 3, minLevel = 2\<rparr>] = []
   \<and> filteredConsumables ''Clancy''
     [\<lparr>c_id = ''c1'', c_name = ''Tape'', c_category = [], c_unit = ''pcs'',
       c_location = ''Clancy'', onHand = 3, minLevel = 2\<rparr>,
      \<lparr>c_id = ''c2'', c_name = ''Gloves'', c_category = [], c_unit = ''box'',
       c_location = ''Scientia'', onHand = 1, minLevel = 2\<rparr>]
     = [\<lparr>c_id = ''c1'', c_name = ''Tape'', c_category = [], c_unit = ''pcs'',
         c_location = ''Clancy'', onHand = 3, minLevel = 2\<rparr>]"
  by (simp add: filteredConsumables_spec)

lemma notifyInvocations_append:
  "notifyInvocations (xs @ ys) = notifyInvocations xs @ notifyInvocations ys"
  by (induction xs rule: notifyInvocations.induct) simp_all

lemma onHandWrites_append: "onHandWrites (xs @ ys) = onHandWrites xs @ onHandWrites ys"
  by (induction xs rule: onHandWrites.induct) simp_all

lemma calls_setToast: "calls (setToast m st) = calls st"
  by (simp add: setToast_def)

lemma calls_request: "calls (request c st) = calls st @ [c]"
  by (simp add: request_def)

lemma calls_notifyToast: "calls (notifyToast r st) = calls st"
  by (simp add: notifyToast_def calls_setToast split: invoke_outcome.splits)

lemma find_tape_admin:
  "find_first (\<lambda>c. c_id c = ''c1'') (consumables admin_client) = Some tape"
  by (simp add: find_first_def admin_client_def staff_client_def tape_def)

text \<open>
  C9. The on-hand count never becomes negative through an adjustment: for an existing
  consumable and any delta, positive or negative, the \<^verbatim>\<open>on_hand\<close> value that
  \<open>adjustConsumable\<close> writes to the store is \<open>max 0 (onHand + delta)\<close>, and it is the only
  stock write of the call.
\<close>

theorem adjustConsumable_on_hand:
  assumes "find_first (\<lambda>c. c_id c = cid) (consumables st) = Some current"
  shows "onHandWrites (calls (adjustConsumable env st cid delta)) =
           onHandWrites (calls st) @ [(cid, max 0 (onHand current + delta))]
         \<and> 0 \<le> max 0 (onHand current + delta)"
  using assms
  by (simp add: adjustConsumable_def Let_def calls_setToast calls_request calls_notifyToast
      loadConsumablesFromDb_def onHandWrites_append split: option.splits)

theorem adjustConsumable_on_hand_witness:
  "find_first (\<lambda>c. c_id c = ''c1'') (consumables admin_client) = Some tape
   \<and> onHandWrites (calls (adjustConsumable adjust_ok admin_client ''c1'' (- 5))) = [(''c1'', 0)]
   \<and> onHandWrites (calls (adjustConsumable adjust_ok admin_client ''c1'' 4)) = [(''c1'', 7)]"
  using adjustConsumable_on_hand [OF find_tape_admin, of adjust_ok "- 5"]
    adjustConsumable_on_hand [OF find_tape_admin, of adjust_ok 4] find_tape_admin
  by (simp add: admin_client_def staff_client_def tape_def)

text \<open>
  C1, as the code has it. For every call of \<open>adjustConsumable\<close> on an existing consumable,
  the notify-low-stock function is invoked, once and with the clamped count, if and only if
  the stock update succeeded, the adjustment is a low-stock crossing (on hand above the
  minimum before, clamped count at or below it after), the user is an admin, and the
  session yields an access token. Otherwise it is not invoked.
\<close>

theorem adjustConsumable_notify:
  assumes "find_first (\<lambda>c. c_id c = cid) (consumables st) = Some current"
  shows "notifyInvocations (calls (adjustConsumable env st cid delta)) =
           notifyInvocations (calls st) @
           (if ae_updateError env = None \<and> lowStockCrossing current delta \<and> isAdmin st
               \<and> \<not> ae_sessionError env \<and> orDefault (ae_accessToken env) [] \<noteq> []
            then [lowStockPayload st current cid (max 0 (onHand current + delta))] else [])"
  using assms
  by (simp add: adjustConsumable_def Let_def calls_setToast calls_request calls_notifyToast
      loadConsumablesFromDb_def notifyInvocations_append lowStockCrossing_def
      split: option.splits)

theorem adjustConsumable_notify_witness:
  "find_first (\<lambda>c. c_id c = ''c1'') (consumables admin_client) = Some tape
   \<and> notifyInvocations (calls (adjustConsumable adjust_ok admin_client ''c1'' (- 1))) =
     [\<lparr>consumable_id = ''c1'', name = ''Tape'', on_hand = 2, min_level = 2,
       location = ''Clancy'', unit = ''rolls'', updated_by_name = ''Admin''\<rparr>]
   \<and> notifyInvocations (calls (adjustConsumable adjust_ok admin_client ''c1'' 1)) = []"
  using adjustConsumable_notify [OF find_tape_admin, of adjust_ok "- 1"]
    adjustConsumable_notify [OF find_tape_admin, of adjust_ok 1] find_tape_admin
  by (simp add: admin_client_def staff_client_def tape_def adjust_ok_def lowStockCrossing_def
      lowStockPayload_def orElse_def orDefault_def)

text \<open>
  C1 as stated fails: a user who is not an admin takes the tape from 3 to 2, with the
  minimum at 2. The update succeeds and the count crosses the minimum, yet the function
  is not invoked.
\<close>

theorem adjustConsumable_notify_counterexample:
  "consumables staff_client = [tape] \<and> c_id tape = ''c1''
   \<and> onHand tape > minLevel tape
   \<and> max 0 (onHand tape + (- 1)) \<le> minLevel tape
   \<and> notifyInvocations (calls (adjustConsumable adjust_ok staff_client ''c1'' (- 1))) = []"
  by (simp add: adjustConsumable_def find_first_def staff_client_def tape_def adjust_ok_def
      Let_def setToast_def request_def loadConsumablesFromDb_def)

section \<open>Verification: equipment items\<close>

lemma itemsHistory_append: "itemsHistory (xs @ ys) = itemsHistory xs @ itemsHistory ys"
  by (induction xs rule: itemsHistory.induct) simp_all

lemma isCheckedOnlyUpdate_iff:
  "isCheckedOnlyUpdate p \<longleftrightarrow>
     ''checked'' \<in> set (objectKeys p) \<and> set (objectKeys p) \<subseteq> {''id'', ''checked''}"
  by (auto simp: isCheckedOnlyUpdate_def hasKey_def list_all_iff)

text \<open>
  C4. For a user who is not an admin, \<open>upsertItem\<close> issues a database update only when the
  partial change has the key \<^verbatim>\<open>checked\<close> and no key other than \<^verbatim>\<open>id\<close> and
  \<^verbatim>\<open>checked\<close>; for any other partial change it sets the toast
  \<^verbatim>\<open>Only admin can edit item details.\<close> and returns with nothing else done: no call to
  the backend, so no database write.
\<close>

theorem upsertItem_non_admin:
  assumes "\<not> isAdmin st"
  shows "(dbWrites (calls (upsertItem env st p)) \<noteq> dbWrites (calls st) \<longrightarrow>
            ''checked'' \<in> set (objectKeys p) \<and> set (objectKeys p) \<subseteq> {''id'', ''checked''})
         \<and> (\<not> (''checked'' \<in> set (objectKeys p)
                \<and> set (objectKeys p) \<subseteq> {''id'', ''checked''}) \<longrightarrow>
            upsertItem env st p = st\<lparr>toast := ''Only admin can edit item details.''\<rparr>)"
proof -
  have gate: "upsertItem env st p = st\<lparr>toast := ''Only admin can edit item details.''\<rparr>"
    if "\<not> isCheckedOnlyUpdate p"
    using assms that by (simp add: upsertItem_def setToast_def)
  then have "dbWrites (calls (upsertItem env st p)) = dbWrites (calls st)"
    if "\<not> isCheckedOnlyUpdate p"
    using that by simp
  with gate show ?thesis
    unfolding isCheckedOnlyUpdate_iff by blast
qed

theorem upsertItem_non_admin_witness:
  "\<not> isAdmin staff_client
   \<and> upsertItem upsert_ok staff_client
         (no_change\<lparr>pt_id := Some ''i1'', pt_name := Some ''Mixer 2''\<rparr>)
       = staff_client\<lparr>toast := ''Only admin can edit item details.''\<rparr>
   \<and> upsertItem upsert_ok staff_client (no_change\<lparr>pt_id := Some ''i1''\<rparr>)
       = staff_client\<lparr>toast := ''Only admin can edit item details.''\<rparr>
   \<and> dbWrites (calls (upsertItem upsert_ok staff_client
         (no_change\<lparr>pt_id := Some ''i1'', pt_checked := Some True\<rparr>))) =
       [ItemUpdate (Some ''i1'')
          \<lparr>pa_item_name = None, pa_tag = None, pa_location = None, pa_qty = None,
           pa_notes = None, pa_checked = Some True, pa_updated_by = Some ''u-bob''\<rparr>]"
proof -
  have na: "\<not> isAdmin staff_client" by (simp add: staff_client_def)
  have k1: "objectKeys (no_change\<lparr>pt_id := Some ''i1'', pt_name := Some ''Mixer 2''\<rparr>)
              = [''id'', ''name'']"
    by (simp add: objectKeys_def no_change_def keyIf_def)
  have k2: "objectKeys (no_change\<lparr>pt_id := Some ''i1''\<rparr>) = [''id'']"
    by (simp add: objectKeys_def no_change_def keyIf_def)
  have w: "dbWrites (calls (upsertItem upsert_ok staff_client
         (no_change\<lparr>pt_id := Some ''i1'', pt_checked := Some True\<rparr>))) =
       [ItemUpdate (Some ''i1'')
          \<lparr>pa_item_name = None, pa_tag = None, pa_location = None, pa_qty = None,
           pa_notes = None, pa_checked = Some True, pa_updated_by = Some ''u-bob''\<rparr>]"
    by (simp add: upsertItem_def isCheckedOnlyUpdate_def hasKey_def objectKeys_def keyIf_def
        no_change_def staff_client_def upsert_ok_def bob_user_def startsWith_def request_def
        setToast_def loadInventoryFromDb_def itemPatch_def dbWrites_def Let_def)
  show ?thesis
    using upsertItem_non_admin [OF na, of upsert_ok
        "no_change\<lparr>pt_id := Some ''i1'', pt_name := Some ''Mixer 2''\<rparr>"]
      upsertItem_non_admin [OF na, of upsert_ok "no_change\<lparr>pt_id := Some ''i1''\<rparr>"]
    by (simp add: na k1 k2 w)
qed

lemma items_addFailed: "items (addFailed m st) = items st"
  by (simp add: addFailed_def setToast_def)

lemma calls_addFailed: "calls (addFailed m st) = calls st"
  by (simp add: addFailed_def setToast_def)

lemma filter_fresh: "k \<notin> it_id ` set xs \<Longrightarrow> filter (\<lambda>y. it_id y \<noteq> k) xs = xs"
  by (induction xs) auto

text \<open>
  The path where the insert resolves with \<^verbatim>\<open>error\<close>. When the insert is reached (an
  admin, the form found, no add in progress, a live session, a non-empty name) the
  optimistic item, whose id is the generated one, is prepended to the local items list;
  the error branch then removes it, matched by that id, and the list is again what it was
  before the call, given that no item of the list already has the generated id.
\<close>

lemma addItem_rollback:
  assumes "isAdmin st" and "ev_isForm e" and "\<not> isAdding st"
    and "\<not> ad_authError env" and "ad_user env = Some u"
    and "trim (orDefault (fd_name e) []) \<noteq> []"
    and "ad_insert env = InsertError m"
    and "ad_uuid env \<notin> it_id ` set (items st)"
  shows "itemsHistory (calls (addItem env st e)) =
           itemsHistory (calls st) @ [optimisticItem env st e u # items st, items st]
         \<and> items (addItem env st e) = items st
         \<and> it_id (optimisticItem env st e u) = ad_uuid env"
  using assms
  by (simp add: addItem_def addItem_try_def Let_def items_addFailed calls_addFailed
      setItems_def request_def itemsHistory_append optimisticItem_def filter_fresh)

lemma addItem_rollback_example:
  "items (addItem add_rejected (admin_client\<lparr>items := [mixer]\<rparr>) add_form) = [mixer]
   \<and> itemsHistory (calls (addItem add_rejected (admin_client\<lparr>items := [mixer]\<rparr>) add_form)) =
       [[optimisticItem add_rejected (admin_client\<lparr>items := [mixer]\<rparr>) add_form boss_user,
         mixer],
        [mixer]]
   \<and> it_name (optimisticItem add_rejected (admin_client\<lparr>items := [mixer]\<rparr>) add_form boss_user)
       = ''Cable''"
proof -
  have h1: "isAdmin (admin_client\<lparr>items := [mixer]\<rparr>)"
    by (simp add: admin_client_def staff_client_def)
  have h2: "ev_isForm add_form" by (simp add: add_form_def)
  have h3: "\<not> isAdding (admin_client\<lparr>items := [mixer]\<rparr>)"
    by (simp add: admin_client_def staff_client_def)
  have h4: "\<not> ad_authError add_rejected" by (simp add: add_rejected_def)
  have h5: "ad_user add_rejected = Some boss_user" by (simp add: add_rejected_def)
  have t: "trim (orDefault (fd_name add_form) []) = ''Cable''" by code_simp
  have h6: "trim (orDefault (fd_name add_form) []) \<noteq> []" by (simp add: t)
  have h7: "ad_insert add_rejected = InsertError ''permission denied''"
    by (simp add: add_rejected_def)
  have h8: "ad_uuid add_rejected \<notin> it_id ` set (items (admin_client\<lparr>items := [mixer]\<rparr>))"
    by (simp add: add_rejected_def mixer_def)
  show ?thesis
    using addItem_rollback [OF h1 h2 h3 h4 h5 h6 h7 h8]
    by (simp add: admin_client_def staff_client_def optimisticItem_def t)
qed


section \<open>Verification: the notification function\<close>

lemma alreadySentToday_iff:
  "alreadySentToday env w cid \<longleftrightarrow>
     \<not> sv_checkError env \<and>
     (\<exists>r \<in> set (notification_logs w).
        lg_consumable_id r = cid \<and> startOfToday env \<le> lg_sent_at r \<and> lg_status r = ''sent'')"
proof (cases "sv_checkError env")
  case True
  then show ?thesis by (simp add: alreadySentToday_def recentNotif_def)
next
  case False
  have "length (take 1 xs) > 0 \<longleftrightarrow> xs \<noteq> []" for xs :: "log_row list"
    by (cases xs) simp_all
  with False show ?thesis
    by (simp add: alreadySentToday_def recentNotif_def filter_empty_conv) blast
qed

lemma map_filter_filter_Some:
  "List.map_filter f (filter (\<lambda>u. f u \<noteq> None) xs) = List.map_filter f xs"
  by (induction xs) (auto simp: List.map_filter_simps)

lemma map_filter_filter_ex:
  "List.map_filter f (filter (\<lambda>u. \<exists>y. f u = Some y) xs) = List.map_filter f xs"
  using map_filter_filter_Some [of f xs] by simp

lemma post_tape_ok:
  "rq_method post_tape = ''POST''" "rq_json post_tape = Inr tape_low"
  "consumable_id tape_low \<noteq> []" "name tape_low \<noteq> []"
  by (simp_all add: post_tape_def tape_low_def)

text \<open>
  C2, as the code has it. For every \<^verbatim>\<open>POST\<close> request with the email API key configured
  and a non-empty \<^verbatim>\<open>consumable_id\<close> and \<^verbatim>\<open>name\<close>, whose duplicate-check query succeeds
  and whose \<^verbatim>\<open>consumable_id\<close> already has a \<^verbatim>\<open>notification_logs\<close> row with status
  \<^verbatim>\<open>sent\<close> and \<^verbatim>\<open>sent_at\<close> at or after the current day's midnight, the function answers
  200 with \<^verbatim>\<open>success: true\<close> and the message
  \<^verbatim>\<open>Notification already sent today for this item\<close>, and leaves everything as it was: no
  call to the email API and no new log row.
\<close>

theorem serve_duplicate_gate:
  assumes "rq_method rq = ''POST''" and "orDefault (BREVO_API_KEY env) [] \<noteq> []"
    and "rq_json rq = Inr payload" and "consumable_id payload \<noteq> []" and "name payload \<noteq> []"
    and "\<not> sv_checkError env"
    and "r \<in> set (notification_logs w)" and "lg_consumable_id r = consumable_id payload"
    and "lg_status r = ''sent''" and "startOfToday env \<le> lg_sent_at r"
  shows "serve env w rq =
           (json 200 (SuccessBody None ''Notification already sent today for this item''), w)"
proof -
  have "alreadySentToday env w (consumable_id payload)"
    unfolding alreadySentToday_iff using assms by blast
  with assms show ?thesis
    by (simp add: serve_def serve_try_def)
qed

theorem serve_duplicate_gate_witness:
  "serve serve_ok world_sent post_tape =
     (json 200 (SuccessBody None ''Notification already sent today for this item''), world_sent)
   \<and> startOfToday serve_ok = 86400000 \<and> lg_sent_at sent_today = 90000000"
proof -
  have k: "orDefault (BREVO_API_KEY serve_ok) [] \<noteq> []"
    by (simp add: serve_ok_def orDefault_def)
  have c: "\<not> sv_checkError serve_ok" by (simp add: serve_ok_def)
  have m: "sent_today \<in> set (notification_logs world_sent)" by (simp add: world_sent_def)
  have i: "lg_consumable_id sent_today = consumable_id tape_low"
    by (simp add: sent_today_def tape_low_def)
  have s: "lg_status sent_today = ''sent''" by (simp add: sent_today_def)
  have d: "startOfToday serve_ok = 86400000" by (simp add: startOfToday_def serve_ok_def)
  have t: "lg_sent_at sent_today = 90000000" by (simp add: sent_today_def)
  have a: "startOfToday serve_ok \<le> lg_sent_at sent_today" by (simp add: d t)
  show ?thesis
    using serve_duplicate_gate [OF post_tape_ok(1) k post_tape_ok(2,3,4) c m i s a]
    by (simp add: d t)
qed

text \<open>
  C2 as stated fails: a \<^verbatim>\<open>sent\<close> row of today exists for the tape, the duplicate-check
  query fails, and the function sends the email again and logs a second \<^verbatim>\<open>sent\<close> row.
\<close>

theorem serve_duplicate_gate_counterexample:
  "sent_today \<in> set (notification_logs world_sent)
   \<and> lg_consumable_id sent_today = consumable_id tape_low
   \<and> lg_status sent_today = ''sent''
   \<and> startOfToday (serve_ok\<lparr>sv_checkError := True\<rparr>) \<le> lg_sent_at sent_today
   \<and> fst (serve (serve_ok\<lparr>sv_checkError := True\<rparr>) world_sent post_tape) =
       json 200 (SuccessBody (Some [''boss@corp.example''])
                   ''Low stock notification sent to 1 admin(s)'')
   \<and> map em_to
         (brevo_requests (snd (serve (serve_ok\<lparr>sv_checkError := True\<rparr>) world_sent post_tape)))
       = [[''boss@corp.example'']]
   \<and> map lg_status
         (notification_logs
            (snd (serve (serve_ok\<lparr>sv_checkError := True\<rparr>) world_sent post_tape)))
       = [''sent'', ''sent'']"
  by code_simp

text \<open>
  Once per day, when the check can be made: after an invocation that sent the email and
  logged it, any later request for the same payload on a day that had begun by the time
  of that send is answered from the log, as long as its duplicate-check query succeeds and
  the table still holds the row.
\<close>

lemma serve_sent_row:
  assumes "fst (serve env w rq) = json 200 (SuccessBody (Some tos) msg)"
  shows "\<exists>payload. rq_json rq = Inr payload
           \<and> logRow env payload ''sent'' tos None \<in> set (notification_logs (snd (serve env w rq)))"
  using assms
  by (auto simp: serve_def serve_try_def Let_def insertLog_def json_def
      split: if_splits sum.splits brevo_outcome.splits)

lemma serve_once_per_day:
  assumes sent: "fst (serve env w rq) = json 200 (SuccessBody (Some tos) msg)"
    and same: "rq_json rq' = rq_json rq" "rq_method rq' = ''POST''"
    and key: "orDefault (BREVO_API_KEY env') [] \<noteq> []"
    and day: "startOfToday env' \<le> sv_now env"
    and ok: "\<not> sv_checkError env'"
    and later: "set (notification_logs (snd (serve env w rq))) \<subseteq> set (notification_logs w')"
  shows "serve env' w' rq' =
           (json 200 (SuccessBody None ''Notification already sent today for this item''), w')"
proof -
  from serve_sent_row [OF sent] obtain payload where
    p: "rq_json rq = Inr payload"
    and r: "logRow env payload ''sent'' tos None \<in> set (notification_logs (snd (serve env w rq)))"
    by blast
  have ne: "consumable_id payload \<noteq> []" "name payload \<noteq> []"
    using sent p
    by (auto simp: serve_def serve_try_def Let_def json_def split: if_splits)
  have "alreadySentToday env' w' (consumable_id payload)"
    unfolding alreadySentToday_iff using r later day ok
    by (auto simp: logRow_def intro!: bexI [where x = "logRow env payload ''sent'' tos None"])
  with same key p ne show ?thesis
    by (simp add: serve_def serve_try_def)
qed

text \<open>
  The exits that log. A \<^verbatim>\<open>POST\<close> invocation with the API key configured and a non-empty
  \<^verbatim>\<open>consumable_id\<close> and \<^verbatim>\<open>name\<close> that passes the same-day duplicate check, whose
  \<^verbatim>\<open>user_profiles\<close> query succeeds and whose call to the email API is answered, inserts
  exactly one row into \<^verbatim>\<open>notification_logs\<close>, with the consumable's id and the
  triggering on-hand value: status \<^verbatim>\<open>sent\<close> with the recipient list when the API answers
  with a 2xx status; status \<^verbatim>\<open>failed\<close> with an error message when no profile has a
  \<^verbatim>\<open>real_email\<close>, when none of them is a real address, or when the API answers with
  another status.
\<close>

lemma serve_records_outcome:
  assumes "rq_method rq = ''POST''" and "orDefault (BREVO_API_KEY env) [] \<noteq> []"
    and "rq_json rq = Inr payload" and "consumable_id payload \<noteq> []" and "name payload \<noteq> []"
    and "\<not> alreadySentToday env w (consumable_id payload)"
    and "\<not> sv_adminError env" and "sv_brevo env = BrevoResponse status"
  shows "notification_logs (snd (serve env w rq)) =
           notification_logs w @
           [let recipients = filter isRealAddress (List.map_filter p_real_email (user_profiles w))
            in if filter (\<lambda>u. p_real_email u \<noteq> None) (user_profiles w) = [] then
                 logRow env payload ''failed'' [] (Some ''No admin users found'')
               else if recipients = [] then
                 logRow env payload ''failed'' []
                   (Some ''No admin users with real email addresses'')
               else if 200 \<le> status \<and> status \<le> 299 then
                 logRow env payload ''sent'' recipients None
               else
                 logRow env payload ''failed'' recipients
                   (Some (''Brevo error: '' @ showNat status))]"
  using assms
  by (simp add: serve_def serve_try_def Let_def insertLog_def map_filter_filter_ex)

lemma serve_records_outcome_example:
  "notification_logs (snd (serve serve_ok world_fresh post_tape)) =
     [\<lparr>lg_consumable_id = ''c1'', lg_notification_type = ''low_stock'', lg_status = ''sent'',
       lg_sent_to_emails = [''boss@corp.example'', ''bob@mail.example''], lg_trigger_value = 2,
       lg_error_message = None, lg_sent_at = 100000000\<rparr>]
   \<and> notification_logs
         (snd (serve (serve_ok\<lparr>sv_brevo := BrevoResponse 500\<rparr>) world_fresh post_tape)) =
     [\<lparr>lg_consumable_id = ''c1'', lg_notification_type = ''low_stock'', lg_status = ''failed'',
       lg_sent_to_emails = [''boss@corp.example'', ''bob@mail.example''], lg_trigger_value = 2,
       lg_error_message = Some ''Brevo error: 500'', lg_sent_at = 100000000\<rparr>]"
proof -
  let ?down = "serve_ok\<lparr>sv_brevo := BrevoResponse 500\<rparr>"
  have k: "orDefault (BREVO_API_KEY serve_ok) [] \<noteq> []"
    and k': "orDefault (BREVO_API_KEY ?down) [] \<noteq> []"
    by (simp_all add: serve_ok_def orDefault_def)
  have n: "\<not> alreadySentToday serve_ok world_fresh (consumable_id tape_low)"
    and n': "\<not> alreadySentToday ?down world_fresh (consumable_id tape_low)"
    by (simp_all add: alreadySentToday_iff world_fresh_def)
  have a: "\<not> sv_adminError serve_ok" and a': "\<not> sv_adminError ?down"
    by (simp_all add: serve_ok_def)
  have b: "sv_brevo serve_ok = BrevoResponse 201" and b': "sv_brevo ?down = BrevoResponse 500"
    by (simp_all add: serve_ok_def)
  have l: "notification_logs world_fresh = []" by (simp add: world_fresh_def)
  have r: "filter isRealAddress (List.map_filter p_real_email (user_profiles world_fresh)) =
             [''boss@corp.example'', ''bob@mail.example'']"
    by code_simp
  have f: "filter (\<lambda>u. p_real_email u \<noteq> None) (user_profiles world_fresh) \<noteq> []"
    by (simp add: world_fresh_def boss_row_def)
  have s: "showNat 500 = ''500''" by code_simp
  have row: "logRow serve_ok tape_low st em err =
               \<lparr>lg_consumable_id = ''c1'', lg_notification_type = ''low_stock'', lg_status = st,
                lg_sent_to_emails = em, lg_trigger_value = 2, lg_error_message = err,
                lg_sent_at = 100000000\<rparr>"
    and row': "logRow ?down tape_low st em err =
               \<lparr>lg_consumable_id = ''c1'', lg_notification_type = ''low_stock'', lg_status = st,
                lg_sent_to_emails = em, lg_trigger_value = 2, lg_error_message = err,
                lg_sent_at = 100000000\<rparr>" for st em err
    by (simp_all add: logRow_def tape_low_def serve_ok_def)
  have "notification_logs (snd (serve serve_ok world_fresh post_tape)) =
          [logRow serve_ok tape_low ''sent'' [''boss@corp.example'', ''bob@mail.example''] None]"
    using serve_records_outcome [OF post_tape_ok(1) k post_tape_ok(2,3,4) n a b] f
    unfolding Let_def r l by simp
  moreover have "notification_logs (snd (serve ?down world_fresh post_tape)) =
          [logRow ?down tape_low ''failed'' [''boss@corp.example'', ''bob@mail.example'']
             (Some (''Brevo error: '' @ showNat 500))]"
    using serve_records_outcome [OF post_tape_ok(1) k' post_tape_ok(2,3,4) n' a' b'] f
    unfolding Let_def r l by simp
  ultimately show ?thesis
    unfolding row row' s by simp
qed

text \<open>
  C5 at a failing input. The claim: every invocation that passes the same-day duplicate
  check records its outcome in \<^verbatim>\<open>notification_logs\<close>, a \<^verbatim>\<open>failed\<close> row with an error
  message when the recipients cannot be determined or the email API call fails. The
  request for the tape passes the duplicate check and the \<^verbatim>\<open>user_profiles\<close> query fails:
  the function answers 500 and inserts nothing. The same holds when the call to the email
  API rejects. The sibling exit for an empty \<^verbatim>\<open>user_profiles\<close> result does log its
  failure.
\<close>

theorem serve_failure_not_logged:
  "alreadySentToday (serve_ok\<lparr>sv_adminError := True\<rparr>) world_fresh (consumable_id tape_low)
     = False
   \<and> serve (serve_ok\<lparr>sv_adminError := True\<rparr>) world_fresh post_tape =
       (json 500 (ErrorBody ''Failed to fetch admin users''), world_fresh)
   \<and> fst (serve (serve_ok\<lparr>sv_brevo := BrevoThrows ''network error''\<rparr>) world_fresh post_tape) =
       json 500 (ErrorBody ''network error'')
   \<and> notification_logs
         (snd (serve (serve_ok\<lparr>sv_brevo := BrevoThrows ''network error''\<rparr>) world_fresh
                 post_tape))
       = []
   \<and> map lg_error_message
         (notification_logs
            (snd (serve serve_ok (world_fresh\<lparr>user_profiles := []\<rparr>) post_tape)))
       = [Some ''No admin users found'']"
  by code_simp

text \<open>
  C3 at a failing input. Bob is not an admin; the row his login writes to
  \<^verbatim>\<open>user_profiles\<close> carries his real address; the alert for the tape goes to the admin's
  address and to Bob's.
\<close>

theorem serve_notifies_every_profile:
  "\<not> isAdminIdentity (Some bob_user) ''bob''
   \<and> upsertCurrentUserProfile (Some bob_user) ''bob@mail.example'' = Some bob_row
   \<and> map em_to (brevo_requests (snd (serve serve_ok world_fresh post_tape))) =
       [[''boss@corp.example'', ''bob@mail.example'']]
   \<and> fst (serve serve_ok world_fresh post_tape) =
       json 200 (SuccessBody (Some [''boss@corp.example'', ''bob@mail.example''])
                   ''Low stock notification sent to 2 admin(s)'')"
  by code_simp

text \<open>
  The recipients of any email the function posts are the real addresses among the
  \<^verbatim>\<open>real_email\<close> of all rows of \<^verbatim>\<open>user_profiles\<close>; no role is read.
\<close>

lemma serve_recipients:
  "brevo_requests (snd (serve env w rq)) = brevo_requests w
   \<or> (\<exists>e. brevo_requests (snd (serve env w rq)) = brevo_requests w @ [e]
          \<and> em_to e = filter isRealAddress (List.map_filter p_real_email (user_profiles w)))"
  by (simp add: serve_def serve_try_def Let_def insertLog_def map_filter_filter_ex
      split: sum.splits brevo_outcome.splits)

end
